theory Spec2Isabelle
  imports Complex_Main "HOL-Library.AList"
begin

section \<open>Python values\<close>

text \<open>
  The program is \<^verbatim>\<open>species_management/get_species.py\<close>. Its values are Python
  objects: floats, ints, bools, strings, \<^verbatim>\<open>None\<close>, lists and dicts (the JSON the
  collaborator returns, the keyword arguments it receives, the records the program
  builds).

  A Python float is an IEEE 754 binary64 number. \<open>Finite s m e\<close> is
  \<open>(-1)\<^sup>s \<sqdot> m \<sqdot> 2\<^sup>e\<close>; the sign of a zero is kept, infinities carry their sign,
  and all NaNs are one value (Python cannot tell their payloads apart).
\<close>

datatype double = Finite bool nat int | Infinity bool | NaN

text \<open>
  The binary64 numbers proper: 53 bits of significand, the exponent of the last place
  between \<open>-1074\<close> and \<open>971\<close>, and a significand below \<open>2\<^sup>5\<^sup>2\<close> only in
  the subnormal range.
\<close>

fun is_double :: "double \<Rightarrow> bool" where
  "is_double (Finite s m e) =
     (m < 2 ^ 53 \<and> - 1074 \<le> e \<and> e \<le> 971 \<and> (2 ^ 52 \<le> m \<or> e = - 1074))"
| "is_double (Infinity s) = True"
| "is_double NaN = True"

text \<open>A dict keeps its insertion order and has one entry per key: an association list.\<close>

datatype pyval =
    PNone
  | PBool bool
  | PInt int
  | PFloat double
  | PStr string
  | PList "pyval list"
  | PDict "(string \<times> pyval) list"

text \<open>
  The exceptions that can leave the program. \<open>Raised\<close> is whatever the collaborator
  raises (network failure, rate limiting): the program catches nothing.
\<close>

datatype py_error =
    ValueError
  | ZeroDivisionError
  | KeyError string
  | TypeError
  | AttributeError
  | Raised string

text \<open>Sequencing: the first exception ends the evaluation.\<close>

definition bind :: "py_error + 'a \<Rightarrow> ('a \<Rightarrow> py_error + 'b) \<Rightarrow> py_error + 'b" where
  "bind r f = (case r of Inl err \<Rightarrow> Inl err | Inr v \<Rightarrow> f v)"

section \<open>Float arithmetic\<close>

text \<open>The number of binary digits of a natural number.\<close>

fun bitlen :: "nat \<Rightarrow> nat" where
  "bitlen n = (if n = 0 then 0 else Suc (bitlen (n div 2)))"

declare bitlen.simps [simp del]

text \<open>
  Rounding to nearest, ties to even. The exact magnitude \<open>x\<close> is given by
  \<open>n \<sqdot> 2\<^sup>e \<le> x < (n + 1) \<sqdot> 2\<^sup>e\<close>, and \<open>sticky\<close> says that \<open>x\<close> is above
  \<open>n \<sqdot> 2\<^sup>e\<close>. \<open>t\<close> is the exponent of the last place of the result: 53 digits are
  kept, fewer in the subnormal range. A result beyond the largest finite number
  is an infinity.
\<close>

definition round_nearest_even :: "bool \<Rightarrow> nat \<Rightarrow> bool \<Rightarrow> int \<Rightarrow> double" where
  "round_nearest_even s n sticky e =
     (let t = max (e + int (bitlen n) - 53) (- 1074);
          m = (if t \<le> e then n * 2 ^ nat (e - t)
               else let sh = nat (t - e);
                        q = n div 2 ^ sh;
                        r = n mod 2 ^ sh;
                        half = 2 ^ (sh - 1)
                    in if half < r \<or> (r = half \<and> (sticky \<or> odd q)) then q + 1 else q);
          (m', t') = (if m = 2 ^ 53 then (2 ^ 52, t + 1) else (m, t))
      in if 971 < t' then Infinity s else Finite s m' t')"

text \<open>
  A literal of the source read as a float: the decimal number with the digits
  \<open>num\<close>, the last \<open>places\<close> of them after the point, correctly rounded.
\<close>

definition float_literal :: "nat \<Rightarrow> nat \<Rightarrow> double" where
  "float_literal num places =
     round_nearest_even False ((num * 2 ^ 110) div 10 ^ places)
       ((num * 2 ^ 110) mod 10 ^ places \<noteq> 0) (- 110)"

text \<open>\<^verbatim>\<open>math.pi\<close> is the double nearest to \<open>\<pi>\<close>, \<^verbatim>\<open>0x1.921fb54442d18p+1\<close>.\<close>

definition math_pi :: double where
  "math_pi = Finite False 7074237752028440 (- 51)"

definition is_zero :: "double \<Rightarrow> bool" where
  "is_zero x = (case x of Finite s m e \<Rightarrow> m = 0 | _ \<Rightarrow> False)"

text \<open>
  IEEE division. A zero divided by a number is a zero, a number divided by a zero
  an infinity, both with the sign of the quotient. The quotient of two other finite
  numbers is computed with 110 more binary digits than the dividend has, which is
  enough for the rounding to see where the exact quotient lies.
\<close>

fun ieee_div :: "double \<Rightarrow> double \<Rightarrow> double" where
  "ieee_div NaN y = NaN"
| "ieee_div x NaN = NaN"
| "ieee_div (Infinity s1) (Infinity s2) = NaN"
| "ieee_div (Infinity s1) (Finite s2 m2 e2) = Infinity (s1 \<noteq> s2)"
| "ieee_div (Finite s1 m1 e1) (Infinity s2) = Finite (s1 \<noteq> s2) 0 (- 1074)"
| "ieee_div (Finite s1 m1 e1) (Finite s2 m2 e2) =
     (if m2 = 0 then (if m1 = 0 then NaN else Infinity (s1 \<noteq> s2))
      else if m1 = 0 then Finite (s1 \<noteq> s2) 0 (- 1074)
      else round_nearest_even (s1 \<noteq> s2)
             ((m1 * 2 ^ 110) div m2) ((m1 * 2 ^ 110) mod m2 \<noteq> 0) (e1 - e2 - 110))"

text \<open>Python's \<^verbatim>\<open>/\<close> on floats: division by a zero raises, otherwise IEEE division.\<close>

definition float_truediv :: "double \<Rightarrow> double \<Rightarrow> py_error + double" where
  "float_truediv x y = (if is_zero y then Inl ZeroDivisionError else Inr (ieee_div x y))"

text \<open>
  The integer square root, digit by digit from the top: \<open>isqrt_loop n b r\<close> decides
  the digits of weight \<open>2\<^sup>b\<^sup>-\<^sup>1, \<dots>, 1\<close> of the root, \<open>r\<close> holding those above.
\<close>

fun isqrt_loop :: "nat \<Rightarrow> nat \<Rightarrow> nat \<Rightarrow> nat" where
  "isqrt_loop n 0 r = r"
| "isqrt_loop n (Suc b) r =
     (let c = r + 2 ^ b in isqrt_loop n b (if c * c \<le> n then c else r))"

definition isqrt :: "nat \<Rightarrow> nat" where
  "isqrt n = isqrt_loop n (bitlen n) 0"

text \<open>
  IEEE square root. A negative number other than \<open>-0.0\<close> has the root NaN; the
  root of \<open>-0.0\<close> is \<open>-0.0\<close>. For a positive \<open>m \<sqdot> 2\<^sup>e\<close> the significand is
  scaled by \<open>2\<^sup>1\<^sup>1\<^sup>0\<close> or \<open>2\<^sup>1\<^sup>1\<^sup>1\<close>, whichever leaves an even exponent.
\<close>

fun ieee_sqrt :: "double \<Rightarrow> double" where
  "ieee_sqrt NaN = NaN"
| "ieee_sqrt (Infinity s) = (if s then NaN else Infinity False)"
| "ieee_sqrt (Finite s m e) =
     (if m = 0 then Finite s 0 (- 1074)
      else if s then NaN
      else let k = (if even e then 110 else 111);
               n = m * 2 ^ k;
               r = isqrt n
           in round_nearest_even False r (r * r \<noteq> n) ((e - int k) div 2))"

text \<open>
  \<^verbatim>\<open>math.sqrt\<close>: the IEEE square root, and a \<^verbatim>\<open>ValueError\<close> (math domain error)
  when the root of a number is NaN.
\<close>

definition math_sqrt :: "double \<Rightarrow> py_error + double" where
  "math_sqrt x =
     (let r = ieee_sqrt x in if r = NaN \<and> x \<noteq> NaN then Inl ValueError else Inr r)"

text \<open>
  Comparison of floats by value (\<^verbatim>\<open><\<close> and \<^verbatim>\<open><=\<close>): a NaN compares false with
  everything, the two zeros are equal.
\<close>

definition scaled :: "bool \<Rightarrow> nat \<Rightarrow> int \<Rightarrow> int \<Rightarrow> int" where
  "scaled s m e k = (if s then - 1 else 1) * int m * 2 ^ nat (e - k)"

fun float_lt :: "double \<Rightarrow> double \<Rightarrow> bool" where
  "float_lt NaN y = False"
| "float_lt x NaN = False"
| "float_lt (Infinity s1) (Infinity s2) = (s1 \<and> \<not> s2)"
| "float_lt (Infinity s1) (Finite s2 m2 e2) = s1"
| "float_lt (Finite s1 m1 e1) (Infinity s2) = (\<not> s2)"
| "float_lt (Finite s1 m1 e1) (Finite s2 m2 e2) =
     (scaled s1 m1 e1 (min e1 e2) < scaled s2 m2 e2 (min e1 e2))"

fun float_le :: "double \<Rightarrow> double \<Rightarrow> bool" where
  "float_le NaN y = False"
| "float_le x NaN = False"
| "float_le (Infinity s1) (Infinity s2) = (s1 \<or> \<not> s2)"
| "float_le (Infinity s1) (Finite s2 m2 e2) = s1"
| "float_le (Finite s1 m1 e1) (Infinity s2) = (\<not> s2)"
| "float_le (Finite s1 m1 e1) (Finite s2 m2 e2) =
     (scaled s1 m1 e1 (min e1 e2) \<le> scaled s2 m2 e2 (min e1 e2))"

definition float_zero :: double where
  "float_zero = Finite False 0 (- 1074)"



section \<open>Operations on objects\<close>

text \<open>
  \<^verbatim>\<open>x[key]\<close> with a string key: a dict looks the key up and raises
  \<^verbatim>\<open>KeyError\<close> when it is missing; every other object raises \<^verbatim>\<open>TypeError\<close>
  (lists and strings take integer indices, the rest is not subscriptable).
\<close>

fun subscript :: "pyval \<Rightarrow> string \<Rightarrow> py_error + pyval" where
  "subscript (PDict d) key =
     (case map_of d key of None \<Rightarrow> Inl (KeyError key) | Some v \<Rightarrow> Inr v)"
| "subscript x key = Inl TypeError"

text \<open>\<^verbatim>\<open>x.get(key)\<close>: \<^verbatim>\<open>None\<close> for a missing key; only a dict has the method.\<close>

fun dict_get :: "pyval \<Rightarrow> string \<Rightarrow> py_error + pyval" where
  "dict_get (PDict d) key = (case map_of d key of None \<Rightarrow> Inr PNone | Some v \<Rightarrow> Inr v)"
| "dict_get x key = Inl AttributeError"

text \<open>
  \<^verbatim>\<open>for r in x\<close>: the elements of a list, the keys of a dict, the characters of a
  string; nothing else is iterable.
\<close>

fun iterate :: "pyval \<Rightarrow> py_error + pyval list" where
  "iterate (PList xs) = Inr xs"
| "iterate (PDict d) = Inr (map (\<lambda>kv. PStr (fst kv)) d)"
| "iterate (PStr s) = Inr (map (\<lambda>c. PStr [c]) s)"
| "iterate x = Inl TypeError"

text \<open>Truth value of an object, as \<^verbatim>\<open>or\<close> tests it.\<close>

fun truthy :: "pyval \<Rightarrow> bool" where
  "truthy PNone = False"
| "truthy (PBool b) = b"
| "truthy (PInt i) = (i \<noteq> 0)"
| "truthy (PFloat x) = (\<not> is_zero x)"
| "truthy (PStr s) = (s \<noteq> [])"
| "truthy (PList xs) = (xs \<noteq> [])"
| "truthy (PDict d) = (d \<noteq> [])"

section \<open>The program\<close>

text \<open>\<^verbatim>\<open>return math.sqrt(area_km2 / math.pi)\<close>\<close>

definition area_to_radius_km :: "double \<Rightarrow> py_error + double" where
  "area_to_radius_km area_km2 = bind (float_truediv area_km2 math_pi) math_sqrt"

text \<open>
  Lines 14 to 29 of \<^verbatim>\<open>fetch_species\<close>: the radius, the dict of the six fixed
  parameters, and the two optional ones, each stored only when its argument is not
  \<^verbatim>\<open>None\<close>.
\<close>

definition fetch_params ::
  "double \<Rightarrow> double \<Rightarrow> double \<Rightarrow> bool option \<Rightarrow> bool option
     \<Rightarrow> py_error + (string \<times> pyval) list" where
  "fetch_params lat lng area_km2 threatened introduced =
     bind (area_to_radius_km area_km2) (\<lambda>radius.
       let params = [(''lat'', PFloat lat),
                     (''lng'', PFloat lng),
                     (''radius'', PFloat radius),
                     (''quality_grade'', PStr ''research''),
                     (''per_page'', PInt 200),
                     (''page'', PStr ''all'')];
           params = (case threatened of None \<Rightarrow> params
                     | Some t \<Rightarrow> AList.update ''threatened'' (PBool t) params);
           params = (case introduced of None \<Rightarrow> params
                     | Some i \<Rightarrow> AList.update ''introduced'' (PBool i) params)
       in Inr params)"

text \<open>
  The dict built for one row \<open>r\<close> of the response, its five values evaluated in
  the order of the source.
\<close>

definition species_record :: "pyval \<Rightarrow> py_error + pyval" where
  "species_record r =
     bind (bind (subscript r ''taxon'') (\<lambda>t. subscript t ''id'')) (\<lambda>taxon_id.
     bind (bind (subscript r ''taxon'') (\<lambda>t. subscript t ''name'')) (\<lambda>scientific_name.
     bind (bind (subscript r ''taxon'') (\<lambda>t. dict_get t ''preferred_common_name'')) (\<lambda>common_name.
     bind (bind (subscript r ''taxon'') (\<lambda>t. subscript t ''rank'')) (\<lambda>rank.
     bind (subscript r ''count'') (\<lambda>obs_count.
       Inr (PDict [(''taxon_id'', taxon_id),
                   (''scientific_name'', scientific_name),
                   (''common_name'', common_name),
                   (''rank'', rank),
                   (''obs_count'', obs_count)]))))))"

text \<open>The list comprehension: one record per row, in order, up to the first exception.\<close>

fun species_records :: "pyval list \<Rightarrow> py_error + pyval list" where
  "species_records [] = Inr []"
| "species_records (r # rs) =
     bind (species_record r) (\<lambda>v. bind (species_records rs) (\<lambda>vs. Inr (v # vs)))"

text \<open>Lines 33 to 42: \<^verbatim>\<open>[... for r in resp["results"]]\<close>.\<close>

definition records_of_response :: "pyval \<Rightarrow> py_error + pyval list" where
  "records_of_response resp = bind (bind (subscript resp ''results'') iterate) species_records"

text \<open>
  \<^verbatim>\<open>fetch_species\<close>. The collaborator \<^verbatim>\<open>get_observation_species_counts\<close> is a
  parameter: it receives the keyword arguments and returns the response or raises.
\<close>

definition fetch_species ::
  "((string \<times> pyval) list \<Rightarrow> py_error + pyval)
     \<Rightarrow> double \<Rightarrow> double \<Rightarrow> double \<Rightarrow> bool option \<Rightarrow> bool option
     \<Rightarrow> py_error + pyval list" where
  "fetch_species get_observation_species_counts lat lng area_km2 threatened introduced =
     bind (fetch_params lat lng area_km2 threatened introduced) (\<lambda>params.
     bind (get_observation_species_counts params) records_of_response)"

text \<open>
  The entry point. What \<^verbatim>\<open>print\<close> receives is recorded, one object per line of
  output. \<^verbatim>\<open>s["common_name"] or s["scientific_name"]\<close> is the first operand when
  it is true, the second otherwise.
\<close>

definition display_name :: "pyval \<Rightarrow> py_error + pyval" where
  "display_name s =
     bind (subscript s ''common_name'') (\<lambda>c.
       if truthy c then Inr c else subscript s ''scientific_name'')"

text \<open>
  \<^verbatim>\<open>for s in species: print(...)\<close>, from the output so far to the output after
  the loop and the exception that ended it, if any.
\<close>

fun print_names :: "pyval list \<Rightarrow> pyval list \<Rightarrow> pyval list \<times> py_error option" where
  "print_names [] out = (out, None)"
| "print_names (s # ss) out =
     (case display_name s of
        Inl err \<Rightarrow> (out, Some err)
      | Inr v \<Rightarrow> print_names ss (out @ [v]))"

definition LAT :: double where
  "LAT = float_literal 599139 4"

definition LNG :: double where
  "LNG = float_literal 107522 4"

text \<open>
  The area passed by the entry point is the int \<^verbatim>\<open>10\<close>, which the division
  converts to the float of the same value.
\<close>

definition main ::
  "((string \<times> pyval) list \<Rightarrow> py_error + pyval) \<Rightarrow> pyval list \<times> py_error option" where
  "main get_observation_species_counts =
     (case fetch_species get_observation_species_counts LAT LNG (float_literal 10 0)
             (Some True) None of
        Inl err \<Rightarrow> ([], Some err)
      | Inr threatened \<Rightarrow>
          (case fetch_species get_observation_species_counts LAT LNG (float_literal 10 0)
                  None (Some True) of
             Inl err \<Rightarrow> ([], Some err)
           | Inr introduced \<Rightarrow>
               (case print_names threatened [PStr (CHR 0x0A # ''Threatened species:'')] of
                  (out, Some err) \<Rightarrow> (out, Some err)
                | (out, None) \<Rightarrow>
                    print_names introduced
                      (out @ [PStr (CHR 0x0A # ''Introduced species:'')]))))"

section \<open>Facts about the model\<close>

subsection \<open>Sequencing\<close>

lemma bind_Inl [simp]: "bind (Inl err) f = Inl err"
  by (simp add: bind_def)

lemma bind_Inr [simp]: "bind (Inr v) f = f v"
  by (simp add: bind_def)

lemma bind_eq_Inr: "bind r f = Inr y \<longleftrightarrow> (\<exists>v. r = Inr v \<and> f v = Inr y)"
  by (cases r) simp_all

subsection \<open>Signs: areas of at least zero\<close>

lemma round_nearest_even_cases:
  "round_nearest_even s n sticky e = Infinity s \<or>
   (\<exists>m t. round_nearest_even s n sticky e = Finite s m t)"
  by (simp add: round_nearest_even_def Let_def split: prod.splits)

lemma round_nearest_even_not_NaN [simp]: "round_nearest_even s n sticky e \<noteq> NaN"
  using round_nearest_even_cases [of s n sticky e] by auto

lemma float_le_zero_iff:
  "float_le float_zero x \<longleftrightarrow>
     (case x of Finite s m e \<Rightarrow> \<not> s \<or> m = 0 | Infinity s \<Rightarrow> \<not> s | NaN \<Rightarrow> False)"
  by (cases x) (auto simp: float_zero_def scaled_def zero_le_mult_iff mult_le_0_iff)

lemma float_lt_zero_iff:
  "float_lt x float_zero \<longleftrightarrow>
     (case x of Finite s m e \<Rightarrow> s \<and> 0 < m | Infinity s \<Rightarrow> s | NaN \<Rightarrow> False)"
  by (cases x) (auto simp: float_zero_def scaled_def mult_less_0_iff zero_less_mult_iff)

lemma is_zero_math_pi [simp]: "\<not> is_zero math_pi"
  by (simp add: is_zero_def math_pi_def)

lemma ieee_sqrt_nonneg:
  "float_le float_zero x \<Longrightarrow> ieee_sqrt x \<noteq> NaN \<and> float_le float_zero (ieee_sqrt x)"
proof (cases x)
  case (Finite s m e)
  assume "float_le float_zero x"
  with Finite have sm: "\<not> s \<or> m = 0" by (simp add: float_le_zero_iff)
  show ?thesis
  proof (cases "m = 0")
    case True
    with Finite show ?thesis by (simp add: float_le_zero_iff)
  next
    case False
    with sm have "\<not> s" by simp
    with False Finite show ?thesis
      using round_nearest_even_cases [of False "isqrt (m * 2 ^ (if even e then 110 else 111))"
          "isqrt (m * 2 ^ (if even e then 110 else 111)) * isqrt (m * 2 ^ (if even e then 110 else 111)) \<noteq> m * 2 ^ (if even e then 110 else 111)" "(e - int (if even e then 110 else 111)) div 2"]
      by (auto simp: float_le_zero_iff Let_def)
  qed
qed (auto simp: float_le_zero_iff)

lemma ieee_div_pi_nonneg:
  "float_le float_zero x \<Longrightarrow> float_le float_zero (ieee_div x math_pi)"
proof (cases x)
  case (Finite s m e)
  assume "float_le float_zero x"
  with Finite have sm: "\<not> s \<or> m = 0" by (simp add: float_le_zero_iff)
  show ?thesis
  proof (cases "m = 0")
    case True
    with Finite show ?thesis by (simp add: float_le_zero_iff math_pi_def)
  next
    case False
    with sm have "\<not> s" by simp
    with False Finite show ?thesis
      using round_nearest_even_cases [of False "(m * 2 ^ 110) div 7074237752028440"
          "(m * 2 ^ 110) mod 7074237752028440 \<noteq> 0" "e - (- 51) - 110"]
      by (auto simp: float_le_zero_iff math_pi_def)
  qed
qed (auto simp: float_le_zero_iff math_pi_def)

lemma area_to_radius_km_nonneg:
  assumes "float_le float_zero a"
  shows "area_to_radius_km a = Inr (ieee_sqrt (ieee_div a math_pi))"
    and "float_le float_zero (ieee_sqrt (ieee_div a math_pi))"
  using ieee_sqrt_nonneg [OF ieee_div_pi_nonneg [OF assms]]
  by (simp_all add: area_to_radius_km_def float_truediv_def math_sqrt_def)

lemma area_zero: "area_to_radius_km float_zero = Inr float_zero"
  by (simp add: area_to_radius_km_def float_truediv_def math_sqrt_def float_zero_def math_pi_def
      is_zero_def)

subsection \<open>Digits, roots and rounding\<close>

lemma bitlen_lower: "0 < n \<Longrightarrow> 2 ^ (bitlen n - 1) \<le> n"
proof (induction n rule: bitlen.induct)
  case (1 n)
  show ?case
  proof (cases "n div 2 = 0")
    case True
    with "1.prems" show ?thesis
      by (simp add: bitlen.simps [of n] bitlen.simps [of 0])
  next
    case False
    then have pos: "0 < n div 2" by simp
    with "1.IH" "1.prems" have ih: "2 ^ (bitlen (n div 2) - 1) \<le> n div 2" by simp
    from pos have bl: "0 < bitlen (n div 2)"
      by (simp add: bitlen.simps [of "n div 2"])
    have "bitlen n - 1 = Suc (bitlen (n div 2) - 1)"
      using "1.prems" bl by (simp add: bitlen.simps [of n])
    then have "(2::nat) ^ (bitlen n - 1) = 2 * 2 ^ (bitlen (n div 2) - 1)" by simp
    also have "\<dots> \<le> 2 * (n div 2)" using ih by simp
    also have "\<dots> \<le> n" by simp
    finally show ?thesis .
  qed
qed









text \<open>
  A magnitude above half of the smallest positive number does not round to zero.
\<close>

lemma round_nearest_even_nonzero:
  assumes big: "2 ^ nat (- 1075 - e) < n"
  shows "round_nearest_even s n sticky e = Infinity s \<or>
         (\<exists>m t. round_nearest_even s n sticky e = Finite s m t \<and> 0 < m)"
proof -
  define t where "t = max (e + int (bitlen n) - 53) (- 1074)"
  define sh where "sh = nat (t - e)"
  define m where "m = (if t \<le> e then n * 2 ^ nat (e - t)
      else if 2 ^ (sh - 1) < n mod 2 ^ sh \<or> (n mod 2 ^ sh = 2 ^ (sh - 1) \<and> (sticky \<or> odd (n div 2 ^ sh)))
           then n div 2 ^ sh + 1 else n div 2 ^ sh)"
  from big have npos: "0 < n" by (cases "n = 0") simp_all
  have mpos: "0 < m"
  proof (cases "t \<le> e")
    case True
    with npos show ?thesis by (simp add: m_def)
  next
    case False
    then have sh1: "1 \<le> sh" by (simp add: sh_def)
    show ?thesis
    proof (cases "n div 2 ^ sh = 0")
      case q0: True
      then have lt: "n < 2 ^ sh" by (simp add: div_eq_0_iff)
      then have r: "n mod 2 ^ sh = n" by simp
      have "t = - 1074"
      proof (rule ccontr)
        assume "t \<noteq> - 1074"
        then have teq: "t = e + int (bitlen n) - 53" and "- 1074 < t" by (auto simp: t_def max_def split: if_splits)
        then have "sh = bitlen n - 53" "53 < bitlen n" using False by (auto simp: sh_def)
        then have "sh \<le> bitlen n - 1" by simp
        then have "(2::nat) ^ sh \<le> 2 ^ (bitlen n - 1)" by (rule power_increasing) simp
        also note bitlen_lower [OF npos]
        finally show False using lt by simp
      qed
      then have "sh - 1 = nat (- 1075 - e)" using sh1 by (simp add: sh_def)
      with big r have "2 ^ (sh - 1) < n mod 2 ^ sh" by simp
      with False show ?thesis by (simp add: m_def)
    next
      case False
      with \<open>\<not> t \<le> e\<close> show ?thesis by (simp add: m_def)
    qed
  qed
  have "round_nearest_even s n sticky e =
      (case (if m = 2 ^ 53 then (2 ^ 52, t + 1) else (m, t)) of
         (m', t') \<Rightarrow> if 971 < t' then Infinity s else Finite s m' t')"
    unfolding round_nearest_even_def Let_def m_def t_def sh_def by (rule refl)
  then have eq: "round_nearest_even s n sticky e =
      (if m = 2 ^ 53 then (if 970 < t then Infinity s else Finite s (2 ^ 52) (t + 1))
       else if 971 < t then Infinity s else Finite s m t)"
    by (cases "m = 2 ^ 53") simp_all
  show ?thesis
  proof (cases "m = 2 ^ 53")
    case True
    show ?thesis
    proof (cases "970 < t")
      case True
      with \<open>m = 2 ^ 53\<close> eq show ?thesis by simp
    next
      case False
      with \<open>m = 2 ^ 53\<close> eq have "round_nearest_even s n sticky e = Finite s (2 ^ 52) (t + 1)"
        by simp
      moreover have "(0::nat) < 2 ^ 52" by simp
      ultimately show ?thesis by blast
    qed
  next
    case False
    show ?thesis
    proof (cases "971 < t")
      case True
      with \<open>m \<noteq> 2 ^ 53\<close> eq show ?thesis by simp
    next
      case False
      with \<open>m \<noteq> 2 ^ 53\<close> eq have "round_nearest_even s n sticky e = Finite s m t"
        by simp
      with mpos show ?thesis by blast
    qed
  qed
qed

lemma ieee_div_pi_negative:
  assumes "is_double (Finite True m e)" "0 < m" "(m, e) \<noteq> (1, - 1074)"
  shows "ieee_div (Finite True m e) math_pi = Infinity True \<or>
         (\<exists>m' t. ieee_div (Finite True m e) math_pi = Finite True m' t \<and> 0 < m')"
proof -
  let ?n = "(m * 2 ^ 110) div 7074237752028440"
  from assms have e: "- 1074 \<le> e" by simp
  have "2 ^ nat (- 1075 - (e - (- 51) - 110)) < ?n"
  proof (cases "e = - 1074")
    case True
    with assms have "2 \<le> m" by (cases "m = 1") auto
    then have "2 * 2 ^ 110 \<le> m * 2 ^ 110" by (rule mult_le_mono1)
    then have "(2 * 2 ^ 110) div 7074237752028440 \<le> ?n" by (rule div_le_mono)
    moreover have "(2::nat) ^ 58 < (2 * 2 ^ 110) div 7074237752028440" by simp
    ultimately show ?thesis using True by simp
  next
    case False
    with e have "nat (- 1075 - (e - (- 51) - 110)) \<le> 57" by simp
    then have "(2::nat) ^ nat (- 1075 - (e - (- 51) - 110)) \<le> 2 ^ 57"
      by (rule power_increasing) simp
    moreover have "1 * 2 ^ 110 \<le> m * 2 ^ 110" using assms(2) by (intro mult_le_mono1) simp
    then have "(1 * 2 ^ 110) div 7074237752028440 \<le> ?n" by (rule div_le_mono)
    moreover have "(2::nat) ^ 57 < (1 * 2 ^ 110) div 7074237752028440" by simp
    ultimately show ?thesis by linarith
  qed
  from round_nearest_even_nonzero [OF this, of True "(m * 2 ^ 110) mod 7074237752028440 \<noteq> 0"]
  show ?thesis using assms(2) by (simp add: math_pi_def)
qed

lemma area_negative:
  assumes "is_double a" "float_lt a float_zero" "a \<noteq> Finite True 1 (- 1074)"
  shows "area_to_radius_km a = Inl ValueError"
proof (cases a)
  case (Finite s m e)
  with assms have "s" "0 < m" "(m, e) \<noteq> (1, - 1074)" "is_double (Finite True m e)"
    by (auto simp: float_lt_zero_iff)
  from ieee_div_pi_negative [OF this(4,2,3)] Finite \<open>s\<close> show ?thesis
    by (auto simp: area_to_radius_km_def float_truediv_def math_sqrt_def)
next
  case (Infinity s)
  with assms show ?thesis
    by (simp add: float_lt_zero_iff area_to_radius_km_def float_truediv_def math_sqrt_def math_pi_def
        is_zero_def)
next
  case NaN
  with assms show ?thesis by (simp add: float_lt_zero_iff)
qed

subsection \<open>Computing on numerals\<close>

lemma bitlen_0 [simp]: "bitlen 0 = 0"
  by (simp add: bitlen.simps [of 0])

lemma bitlen_Suc_0 [simp]: "bitlen (Suc 0) = 1"
  by (subst bitlen.simps) simp

lemma bitlen_numeral: "bitlen (numeral k) = bitlen (numeral k div 2) + 1"
  by (subst bitlen.simps) simp



text \<open>
  The quotient of the smallest positive number by \<^verbatim>\<open>math.pi\<close> lies below half
  of the smallest positive number, and rounds to zero.
\<close>

lemma bitlen_smallest_over_pi: "bitlen 183493156455125083 = 58"
  by (simp add: bitlen_numeral)

lemma round_smallest_over_pi:
  "round_nearest_even s 183493156455125083 True (- 1133) = Finite s 0 (- 1074)"
  by (simp add: round_nearest_even_def Let_def bitlen_smallest_over_pi)

subsection \<open>The request and the response\<close>

lemma fetch_params_Inr:
  assumes "area_to_radius_km area_km2 = Inr radius"
  shows "fetch_params lat lng area_km2 threatened introduced =
     Inr ([(''lat'', PFloat lat), (''lng'', PFloat lng), (''radius'', PFloat radius),
           (''quality_grade'', PStr ''research''), (''per_page'', PInt 200),
           (''page'', PStr ''all'')]
          @ (case threatened of None \<Rightarrow> [] | Some t \<Rightarrow> [(''threatened'', PBool t)])
          @ (case introduced of None \<Rightarrow> [] | Some i \<Rightarrow> [(''introduced'', PBool i)]))"
  using assms by (simp add: fetch_params_def split: option.splits)

lemma fetch_params_Inl:
  "area_to_radius_km area_km2 = Inl err \<Longrightarrow>
   fetch_params lat lng area_km2 threatened introduced = Inl err"
  by (simp add: fetch_params_def)

lemma fetch_species_call:
  "fetch_params lat lng area_km2 threatened introduced = Inr params \<Longrightarrow>
   fetch_species api lat lng area_km2 threatened introduced = bind (api params) records_of_response"
  by (simp add: fetch_species_def)

lemma species_records_iff:
  "species_records rows = Inr out \<longleftrightarrow>
     list_all2 (\<lambda>r v. species_record r = Inr v) rows out"
proof (induction rows arbitrary: out)
  case Nil
  then show ?case by auto
next
  case (Cons r rows)
  show ?case
  proof (cases out)
    case Nil
    then show ?thesis by (auto simp: bind_eq_Inr)
  next
    case (Cons v vs)
    with Cons.IH [of vs] show ?thesis by (auto simp: bind_eq_Inr)
  qed
qed

lemma records_of_response_list:
  "subscript resp ''results'' = Inr (PList rows) \<Longrightarrow> records_of_response resp = species_records rows"
  by (simp add: records_of_response_def)

lemma species_record_fields:
  assumes "map_of row ''taxon'' = Some (PDict taxon)"
    and "map_of taxon ''id'' = Some taxon_id"
    and "map_of taxon ''name'' = Some name"
    and "map_of taxon ''rank'' = Some rank"
    and "map_of row ''count'' = Some obs_count"
  shows "species_record (PDict row) =
     Inr (PDict [(''taxon_id'', taxon_id), (''scientific_name'', name),
                 (''common_name'', case map_of taxon ''preferred_common_name'' of
                                     None \<Rightarrow> PNone | Some c \<Rightarrow> c),
                 (''rank'', rank), (''obs_count'', obs_count)])"
  using assms by (simp add: species_record_def split: option.splits)

subsection \<open>The constants of the entry point\<close>

text \<open>
  The floats of the source, computed: the area \<^verbatim>\<open>10\<close>, the coordinates
  \<^verbatim>\<open>59.9139\<close> (\<^verbatim>\<open>0x1.df4faacd9e83ep+5\<close>) and \<^verbatim>\<open>10.7522\<close>
  (\<^verbatim>\<open>0x1.581205bc01a37p+3\<close>), and the radius of the area 10,
  \<^verbatim>\<open>1.7841241161527712\<close> (\<^verbatim>\<open>0x1.c8bc5baae18d0p+0\<close>).
\<close>

lemma bitlen_10: "bitlen 12980742146337069071326240823050240 = 114"
  by (simp add: bitlen_numeral)

lemma float_literal_10: "float_literal 10 0 = Finite False 5629499534213120 (- 49)"
  by (simp add: float_literal_def round_nearest_even_def Let_def bitlen_10)

lemma bitlen_LAT: "bitlen 77772688688142452263253326004814977 = 116"
  by (simp add: bitlen_numeral)

lemma LAT_value: "LAT = Finite False 8432131803572286 (- 47)"
  by (simp add: LAT_def float_literal_def bitlen_LAT round_nearest_even_def Let_def)

lemma bitlen_LNG: "bitlen 13957153570584543406871400657760079 = 114"
  by (simp add: bitlen_numeral)

lemma LNG_value: "LNG = Finite False 6052950489176631 (- 49)"
  by (simp add: LNG_def float_literal_def bitlen_LNG round_nearest_even_def Let_def)









lemma float_literal_10_nonneg: "float_le float_zero (float_literal 10 0)"
  by (simp add: float_literal_10 float_le_zero_iff)

lemma fetch_params_10:
  "fetch_params lat lng (float_literal 10 0) threatened introduced =
     Inr ([(''lat'', PFloat lat), (''lng'', PFloat lng),
           (''radius'', PFloat (ieee_sqrt (ieee_div (float_literal 10 0) math_pi))),
           (''quality_grade'', PStr ''research''), (''per_page'', PInt 200),
           (''page'', PStr ''all'')]
          @ (case threatened of None \<Rightarrow> [] | Some t \<Rightarrow> [(''threatened'', PBool t)])
          @ (case introduced of None \<Rightarrow> [] | Some i \<Rightarrow> [(''introduced'', PBool i)]))"
  by (rule fetch_params_Inr, rule area_to_radius_km_nonneg(1), rule float_literal_10_nonneg)

lemma main_prints:
  assumes "fetch_species api LAT LNG (float_literal 10 0) (Some True) None = Inr threatened"
    and "fetch_species api LAT LNG (float_literal 10 0) None (Some True) = Inr introduced"
  shows "main api =
     (case print_names threatened [PStr (CHR 0x0A # ''Threatened species:'')] of
        (out, Some err) \<Rightarrow> (out, Some err)
      | (out, None) \<Rightarrow>
          print_names introduced (out @ [PStr (CHR 0x0A # ''Introduced species:'')]))"
  using assms by (simp add: main_def)

text \<open>
  A run of the entry point against a collaborator that answers the query for
  threatened species with one row that has a common name, and the other query with
  one row that has none.
\<close>

lemma main_example:
  "main (\<lambda>params.
      if map_of params ''threatened'' = Some (PBool True)
      then Inr (PDict [(''results'', PList [PDict [
             (''taxon'', PDict [(''id'', PInt 1), (''name'', PStr ''Vulpes vulpes''),
                                (''rank'', PStr ''species''),
                                (''preferred_common_name'', PStr ''Red fox'')]),
             (''count'', PInt 5)]])])
      else Inr (PDict [(''results'', PList [PDict [
             (''taxon'', PDict [(''id'', PInt 2), (''name'', PStr ''Lupinus polyphyllus''),
                                (''rank'', PStr ''species'')]),
             (''count'', PInt 3)]])])) =
   ([PStr (CHR 0x0A # ''Threatened species:''), PStr ''Red fox'',
     PStr (CHR 0x0A # ''Introduced species:''), PStr ''Lupinus polyphyllus''], None)"
  by (simp add: main_def fetch_species_def fetch_params_10 records_of_response_def
      species_record_def display_name_def)

section \<open>Floats against real numbers\<close>

text \<open>
  What the float operations compute, measured against the real numbers they round:
  one rounding step lands within half a unit of the last place, so the quotient by
  \<^verbatim>\<open>math.pi\<close> and the square root are within a relative error of \<open>2\<^sup>-\<^sup>5\<^sup>3\<close>
  of the exact quotient and root (the quotient within \<open>2\<^sup>-\<^sup>1\<^sup>0\<^sup>7\<^sup>5\<close> when it is
  subnormal), and \<^verbatim>\<open>math.pi\<close> is within \<open>2\<^sup>-\<^sup>5\<^sup>2\<close> of \<open>\<pi>\<close>.
\<close>

subsection \<open>One rounding step\<close>




subsection \<open>The quotient by \<^verbatim>\<open>math.pi\<close>\<close>



subsection \<open>The square root\<close>



subsection \<open>The radius of a positive area\<close>





subsection \<open>\<^verbatim>\<open>math.pi\<close> and \<open>\<pi>\<close>\<close>










subsection \<open>The radius against \<open>sqrt (area / \<pi>)\<close>\<close>






subsection \<open>Two areas, computed\<close>






section \<open>The claims\<close>




text \<open>
  C2. When the collaborator answers with the response of one row for
  \<^emph>\<open>Vulpes vulpes\<close> (id 1, rank species, common name Red fox, count 5),
  \<^verbatim>\<open>fetch_species\<close> returns exactly the list of the one record with
  \<^verbatim>\<open>taxon_id\<close> 1, that scientific name, that common name, that rank and
  \<^verbatim>\<open>obs_count\<close> 5.
\<close>

theorem fetch_species_mock_response:
  assumes "fetch_params lat lng area_km2 threatened introduced = Inr params"
    and "api params =
      Inr (PDict [(''results'', PList [PDict [
        (''taxon'', PDict [(''id'', PInt 1), (''name'', PStr ''Vulpes vulpes''),
                           (''rank'', PStr ''species''),
                           (''preferred_common_name'', PStr ''Red fox'')]),
        (''count'', PInt 5)]])])"
  shows "fetch_species api lat lng area_km2 threatened introduced =
      Inr [PDict [(''taxon_id'', PInt 1), (''scientific_name'', PStr ''Vulpes vulpes''),
                  (''common_name'', PStr ''Red fox''), (''rank'', PStr ''species''),
                  (''obs_count'', PInt 5)]]"
  using assms by (simp add: fetch_species_def records_of_response_def species_record_def)

theorem fetch_species_mock_response_witness:
  "fetch_species (\<lambda>params. Inr (PDict [(''results'', PList [PDict [
        (''taxon'', PDict [(''id'', PInt 1), (''name'', PStr ''Vulpes vulpes''),
                           (''rank'', PStr ''species''),
                           (''preferred_common_name'', PStr ''Red fox'')]),
        (''count'', PInt 5)]])]))
       LAT LNG (float_literal 10 0) (Some True) None =
     Inr [PDict [(''taxon_id'', PInt 1), (''scientific_name'', PStr ''Vulpes vulpes''),
                  (''common_name'', PStr ''Red fox''), (''rank'', PStr ''species''),
                  (''obs_count'', PInt 5)]]"
  using fetch_species_mock_response [of LAT LNG "float_literal 10 0" "Some True" None _
      "\<lambda>params. Inr (PDict [(''results'', PList [PDict [
        (''taxon'', PDict [(''id'', PInt 1), (''name'', PStr ''Vulpes vulpes''),
                           (''rank'', PStr ''species''),
                           (''preferred_common_name'', PStr ''Red fox'')]),
        (''count'', PInt 5)]])])"]
  by (simp add: fetch_params_10)

text \<open>
  C3. For every latitude, longitude and area of at least zero, the call with
  \<^verbatim>\<open>threatened=True\<close> and \<^verbatim>\<open>introduced\<close> left unset builds a parameter dict in
  which \<^verbatim>\<open>threatened\<close> is \<^verbatim>\<open>True\<close> and \<^verbatim>\<open>introduced\<close> is no key, and that dict
  is what the collaborator is called with.
\<close>

theorem fetch_species_threatened_only:
  assumes "float_le float_zero area_km2"
  shows "\<exists>params. fetch_params lat lng area_km2 (Some True) None = Inr params
      \<and> map_of params ''threatened'' = Some (PBool True)
      \<and> ''introduced'' \<notin> fst ` set params
      \<and> fetch_species api lat lng area_km2 (Some True) None = bind (api params) records_of_response"
proof -
  note p = fetch_params_Inr [OF area_to_radius_km_nonneg(1) [OF assms], of lat lng "Some True" None]
  show ?thesis
    by (rule exI, intro conjI, rule p, simp, simp, rule fetch_species_call, rule p)
qed

theorem fetch_species_threatened_only_witness:
  "float_le float_zero (float_literal 10 0)
   \<and> (\<exists>params. fetch_params LAT LNG (float_literal 10 0) (Some True) None = Inr params
      \<and> map_of params ''threatened'' = Some (PBool True)
      \<and> ''introduced'' \<notin> fst ` set params
      \<and> fetch_species (\<lambda>params. Inr PNone) LAT LNG (float_literal 10 0) (Some True) None =
          bind ((\<lambda>params. Inr PNone) params) records_of_response)"
  using fetch_species_threatened_only [OF float_literal_10_nonneg, of LAT LNG "\<lambda>params. Inr PNone"]
    float_literal_10_nonneg
  by blast

text \<open>
  C4. For every latitude, longitude and area of at least zero, the call with neither
  filter set builds a parameter dict without the keys \<^verbatim>\<open>threatened\<close> and
  \<^verbatim>\<open>introduced\<close>, in which \<^verbatim>\<open>quality_grade\<close> is \<^verbatim>\<open>"research"\<close>,
  \<^verbatim>\<open>per_page\<close> is 200 and \<^verbatim>\<open>page\<close> is \<^verbatim>\<open>"all"\<close>.
\<close>

theorem fetch_species_no_filters:
  assumes "float_le float_zero area_km2"
  shows "\<exists>params. fetch_params lat lng area_km2 None None = Inr params
      \<and> ''threatened'' \<notin> fst ` set params
      \<and> ''introduced'' \<notin> fst ` set params
      \<and> map_of params ''quality_grade'' = Some (PStr ''research'')
      \<and> map_of params ''per_page'' = Some (PInt 200)
      \<and> map_of params ''page'' = Some (PStr ''all'')
      \<and> fetch_species api lat lng area_km2 None None = bind (api params) records_of_response"
proof -
  note p = fetch_params_Inr [OF area_to_radius_km_nonneg(1) [OF assms], of lat lng None None]
  show ?thesis
    by (rule exI, intro conjI, rule p, simp, simp, simp, simp, simp, rule fetch_species_call, rule p)
qed

theorem fetch_species_no_filters_witness:
  "float_le float_zero (float_literal 10 0)
   \<and> (\<exists>params. fetch_params LAT LNG (float_literal 10 0) None None = Inr params
      \<and> ''threatened'' \<notin> fst ` set params
      \<and> ''introduced'' \<notin> fst ` set params
      \<and> map_of params ''quality_grade'' = Some (PStr ''research'')
      \<and> map_of params ''per_page'' = Some (PInt 200)
      \<and> map_of params ''page'' = Some (PStr ''all'')
      \<and> fetch_species (\<lambda>params. Inr PNone) LAT LNG (float_literal 10 0) None None =
          bind ((\<lambda>params. Inr PNone) params) records_of_response)"
  using fetch_species_no_filters [OF float_literal_10_nonneg, of LAT LNG "\<lambda>params. Inr PNone"]
    float_literal_10_nonneg
  by blast

text \<open>
  C5, as the code has it. The claim is that every area below zero ends in the
  domain error of the square root. It fails at the negative float nearest to zero,
  \<open>-2\<^sup>-\<^sup>1\<^sup>0\<^sup>7\<^sup>4\<close> (\<^verbatim>\<open>-5e-324\<close>): its quotient by \<^verbatim>\<open>math.pi\<close> rounds to
  \<^verbatim>\<open>-0.0\<close>, whose square root is \<^verbatim>\<open>-0.0\<close>, and the function returns it.
\<close>

theorem area_to_radius_km_negative_underflow:
  "is_double (Finite True 1 (- 1074))
   \<and> float_lt (Finite True 1 (- 1074)) float_zero
   \<and> area_to_radius_km (Finite True 1 (- 1074)) = Inr (Finite True 0 (- 1074))"
  by (simp add: float_lt_zero_iff area_to_radius_km_def float_truediv_def math_sqrt_def
      math_pi_def is_zero_def round_smallest_over_pi)

text \<open>
  C5, amended. For every float below zero other than \<^verbatim>\<open>-5e-324\<close>,
  \<^verbatim>\<open>area_to_radius_km\<close> raises the \<^verbatim>\<open>ValueError\<close> of \<^verbatim>\<open>math.sqrt\<close>, and so
  does \<^verbatim>\<open>fetch_species\<close>, whatever the collaborator is: it is not called.
\<close>

theorem area_to_radius_km_negative_domain_error:
  assumes "is_double area_km2"
    and "float_lt area_km2 float_zero"
    and "area_km2 \<noteq> Finite True 1 (- 1074)"
  shows "area_to_radius_km area_km2 = Inl ValueError
      \<and> fetch_species api lat lng area_km2 threatened introduced = Inl ValueError"
  using area_negative [OF assms]
  by (simp add: fetch_species_def fetch_params_Inl)

theorem area_to_radius_km_negative_domain_error_witness:
  "is_double (Finite True 5629499534213120 (- 49))
   \<and> float_lt (Finite True 5629499534213120 (- 49)) float_zero
   \<and> area_to_radius_km (Finite True 5629499534213120 (- 49)) = Inl ValueError
   \<and> fetch_species (\<lambda>params. Inr PNone) LAT LNG (Finite True 5629499534213120 (- 49))
         (Some True) None = Inl ValueError"
  using area_to_radius_km_negative_domain_error
    [of "Finite True 5629499534213120 (- 49)" "\<lambda>params. Inr PNone" LAT LNG "Some True" None]
  by (simp add: float_lt_zero_iff)

text \<open>
  C6. A row whose taxon has no \<^verbatim>\<open>preferred_common_name\<close> (and has the fields
  the response always carries) raises nothing: its record has \<^verbatim>\<open>common_name\<close>
  \<^verbatim>\<open>None\<close>, that record is the one \<^verbatim>\<open>fetch_species\<close> returns at the row's
  position, and the entry point prints the scientific name for it.
\<close>

theorem missing_common_name_falls_back:
  assumes "fetch_params lat lng area_km2 threatened introduced = Inr params"
    and "api params = Inr resp"
    and "subscript resp ''results'' = Inr (PList rows)"
    and "i < length rows"
    and "rows ! i = PDict row"
    and "map_of row ''taxon'' = Some (PDict taxon)"
    and "map_of taxon ''preferred_common_name'' = None"
    and "map_of taxon ''id'' = Some taxon_id"
    and "map_of taxon ''name'' = Some name"
    and "map_of taxon ''rank'' = Some rank"
    and "map_of row ''count'' = Some obs_count"
  shows "species_record (rows ! i) =
           Inr (PDict [(''taxon_id'', taxon_id), (''scientific_name'', name),
                       (''common_name'', PNone), (''rank'', rank), (''obs_count'', obs_count)])
      \<and> (\<forall>out. fetch_species api lat lng area_km2 threatened introduced = Inr out \<longrightarrow>
            out ! i = PDict [(''taxon_id'', taxon_id), (''scientific_name'', name),
                       (''common_name'', PNone), (''rank'', rank), (''obs_count'', obs_count)]
            \<and> subscript (out ! i) ''common_name'' = Inr PNone
            \<and> display_name (out ! i) = Inr name
            \<and> print_names [out ! i] printed = (printed @ [name], None))"
proof -
  let ?rec = "PDict [(''taxon_id'', taxon_id), (''scientific_name'', name),
                       (''common_name'', PNone), (''rank'', rank), (''obs_count'', obs_count)]"
  have rec: "species_record (rows ! i) = Inr ?rec"
    using species_record_fields [OF assms(6,8,9,10,11)] assms(5,7) by simp
  have eq: "fetch_species api lat lng area_km2 threatened introduced = species_records rows"
    using assms(1-3) by (simp add: fetch_species_call records_of_response_list)
  have disp: "display_name ?rec = Inr name"
    by (simp add: display_name_def)
  have "out ! i = ?rec" if "species_records rows = Inr out" for out
  proof -
    from that have "list_all2 (\<lambda>r v. species_record r = Inr v) rows out"
      by (simp add: species_records_iff)
    with assms(4) have "species_record (rows ! i) = Inr (out ! i)"
      by (simp add: list_all2_conv_all_nth)
    with rec show ?thesis by simp
  qed
  with rec disp show ?thesis unfolding eq by simp
qed

theorem missing_common_name_falls_back_witness:
  "species_record (PDict [
        (''taxon'', PDict [(''id'', PInt 1), (''name'', PStr ''Vulpes vulpes''),
                           (''rank'', PStr ''species'')]),
        (''count'', PInt 5)]) =
     Inr (PDict [(''taxon_id'', PInt 1), (''scientific_name'', PStr ''Vulpes vulpes''),
                 (''common_name'', PNone), (''rank'', PStr ''species''),
                 (''obs_count'', PInt 5)])
   \<and> fetch_species (\<lambda>params. Inr (PDict [(''results'', PList [PDict [
        (''taxon'', PDict [(''id'', PInt 1), (''name'', PStr ''Vulpes vulpes''),
                           (''rank'', PStr ''species'')]),
        (''count'', PInt 5)]])]))
           LAT LNG (float_literal 10 0) (Some True) None =
     Inr [PDict [(''taxon_id'', PInt 1), (''scientific_name'', PStr ''Vulpes vulpes''),
                 (''common_name'', PNone), (''rank'', PStr ''species''),
                 (''obs_count'', PInt 5)]]
   \<and> display_name
        (PDict [(''taxon_id'', PInt 1), (''scientific_name'', PStr ''Vulpes vulpes''),
                 (''common_name'', PNone), (''rank'', PStr ''species''),
                 (''obs_count'', PInt 5)]) = Inr (PStr ''Vulpes vulpes'')
   \<and> print_names
        [PDict [(''taxon_id'', PInt 1), (''scientific_name'', PStr ''Vulpes vulpes''),
                 (''common_name'', PNone), (''rank'', PStr ''species''),
                 (''obs_count'', PInt 5)]] [] = ([] @ [PStr ''Vulpes vulpes''], None)"
proof -
  let ?taxon = "[(''id'', PInt 1), (''name'', PStr ''Vulpes vulpes''),
                 (''rank'', PStr ''species'')]"
  let ?row = "[(''taxon'', PDict ?taxon), (''count'', PInt 5)]"
  let ?resp = "PDict [(''results'', PList [PDict ?row])]"
  let ?rec = "PDict [(''taxon_id'', PInt 1), (''scientific_name'', PStr ''Vulpes vulpes''),
                 (''common_name'', PNone), (''rank'', PStr ''species''),
                 (''obs_count'', PInt 5)]"
  have returned: "fetch_species (\<lambda>params. Inr ?resp)
           LAT LNG (float_literal 10 0) (Some True) None = Inr [?rec]"
    by (simp add: fetch_species_def fetch_params_10 records_of_response_def species_record_def)
  have "species_record ([PDict ?row] ! 0) = Inr ?rec
   \<and> (\<forall>out. fetch_species (\<lambda>params. Inr ?resp)
           LAT LNG (float_literal 10 0) (Some True) None = Inr out \<longrightarrow>
         out ! 0 = ?rec
         \<and> subscript (out ! 0) ''common_name'' = Inr PNone
         \<and> display_name (out ! 0) = Inr (PStr ''Vulpes vulpes'')
         \<and> print_names [out ! 0] [] = ([] @ [PStr ''Vulpes vulpes''], None))"
    by (rule missing_common_name_falls_back
          [where resp = ?resp and row = ?row and taxon = ?taxon])
       (simp_all add: fetch_params_10)
  then have "species_record ([PDict ?row] ! 0) = Inr ?rec"
    and "[?rec] ! 0 = ?rec \<and> subscript ([?rec] ! 0) ''common_name'' = Inr PNone
         \<and> display_name ([?rec] ! 0) = Inr (PStr ''Vulpes vulpes'')
         \<and> print_names [[?rec] ! 0] [] = ([] @ [PStr ''Vulpes vulpes''], None)"
    using returned by blast+
  with returned show ?thesis unfolding nth_Cons_0 by blast
qed




text \<open>
  C8. When the response's \<^verbatim>\<open>results\<close> is a list of rows, \<^verbatim>\<open>fetch_species\<close>
  returns a list exactly when that list has one record per row, in the order of the
  rows, each the record of its row; and it does return when every row has a record.
  Nothing is filtered, merged or reordered.
\<close>

theorem fetch_species_one_record_per_row:
  assumes "fetch_params lat lng area_km2 threatened introduced = Inr params"
    and "api params = Inr resp"
    and "subscript resp ''results'' = Inr (PList rows)"
  shows "(fetch_species api lat lng area_km2 threatened introduced = Inr out \<longleftrightarrow>
            length out = length rows \<and>
            (\<forall>i<length rows. species_record (rows ! i) = Inr (out ! i)))
      \<and> ((\<forall>r\<in>set rows. \<exists>v. species_record r = Inr v) \<longrightarrow>
            (\<exists>out'. fetch_species api lat lng area_km2 threatened introduced = Inr out'))"
proof -
  have eq: "fetch_species api lat lng area_km2 threatened introduced = species_records rows"
    using assms by (simp add: fetch_species_call records_of_response_list)
  have 1: "species_records rows = Inr out \<longleftrightarrow>
      length out = length rows \<and> (\<forall>i<length rows. species_record (rows ! i) = Inr (out ! i))"
    by (auto simp: species_records_iff list_all2_conv_all_nth)
  have 2: "\<exists>out'. species_records rows = Inr out'"
    if "\<forall>r\<in>set rows. \<exists>v. species_record r = Inr v"
    using that by (induction rows) auto
  from 1 2 show ?thesis unfolding eq by blast
qed

theorem fetch_species_one_record_per_row_witness:
  "fetch_species (\<lambda>params. Inr (PDict [(''results'', PList [PDict [
        (''taxon'', PDict [(''id'', PInt 1), (''name'', PStr ''Vulpes vulpes''),
                           (''rank'', PStr ''species''),
                           (''preferred_common_name'', PStr ''Red fox'')]),
        (''count'', PInt 5)]])]))
       LAT LNG (float_literal 10 0) (Some True) None =
     Inr [PDict [(''taxon_id'', PInt 1), (''scientific_name'', PStr ''Vulpes vulpes''),
                 (''common_name'', PStr ''Red fox''), (''rank'', PStr ''species''),
                 (''obs_count'', PInt 5)]]
   \<and> species_record (PDict [
        (''taxon'', PDict [(''id'', PInt 1), (''name'', PStr ''Vulpes vulpes''),
                           (''rank'', PStr ''species''),
                           (''preferred_common_name'', PStr ''Red fox'')]),
        (''count'', PInt 5)]) =
     Inr (PDict [(''taxon_id'', PInt 1), (''scientific_name'', PStr ''Vulpes vulpes''),
                 (''common_name'', PStr ''Red fox''), (''rank'', PStr ''species''),
                 (''obs_count'', PInt 5)])"
proof -
  let ?row = "PDict [
        (''taxon'', PDict [(''id'', PInt 1), (''name'', PStr ''Vulpes vulpes''),
                           (''rank'', PStr ''species''),
                           (''preferred_common_name'', PStr ''Red fox'')]),
        (''count'', PInt 5)]"
  let ?rec = "PDict [(''taxon_id'', PInt 1), (''scientific_name'', PStr ''Vulpes vulpes''),
                 (''common_name'', PStr ''Red fox''), (''rank'', PStr ''species''),
                 (''obs_count'', PInt 5)]"
  let ?api = "\<lambda>params :: (string \<times> pyval) list.
                (Inr (PDict [(''results'', PList [?row])]) :: py_error + pyval)"
  have rec: "species_record ?row = Inr ?rec"
    by (simp add: species_record_def)
  have "(fetch_species ?api LAT LNG (float_literal 10 0) (Some True) None = Inr [?rec] \<longleftrightarrow>
            length [?rec] = length [?row] \<and>
            (\<forall>i<length [?row]. species_record ([?row] ! i) = Inr ([?rec] ! i)))
      \<and> ((\<forall>r\<in>set [?row]. \<exists>v. species_record r = Inr v) \<longrightarrow>
            (\<exists>out'. fetch_species ?api LAT LNG (float_literal 10 0) (Some True) None =
               Inr out'))"
    by (rule fetch_species_one_record_per_row
          [where resp = "PDict [(''results'', PList [?row])]"])
       (simp_all add: fetch_params_10)
  with rec show ?thesis by simp
qed

text \<open>
  C9. Each of the two optional filters is a key of the parameter dict exactly when
  its argument is not \<^verbatim>\<open>None\<close>, and then with the argument's value:
  \<^verbatim>\<open>False\<close> is stored as \<^verbatim>\<open>False\<close>, not left out.
\<close>

theorem optional_filter_present_iff_given:
  assumes "area_to_radius_km area_km2 = Inr radius"
  shows "\<exists>params. fetch_params lat lng area_km2 threatened introduced = Inr params
      \<and> (''threatened'' \<in> fst ` set params \<longleftrightarrow> threatened \<noteq> None)
      \<and> (''introduced'' \<in> fst ` set params \<longleftrightarrow> introduced \<noteq> None)
      \<and> (\<forall>b. threatened = Some b \<longrightarrow> map_of params ''threatened'' = Some (PBool b))
      \<and> (\<forall>b. introduced = Some b \<longrightarrow> map_of params ''introduced'' = Some (PBool b))
      \<and> fetch_species api lat lng area_km2 threatened introduced = bind (api params) records_of_response"
proof -
  let ?params = "[(''lat'', PFloat lat), (''lng'', PFloat lng), (''radius'', PFloat radius),
           (''quality_grade'', PStr ''research''), (''per_page'', PInt 200),
           (''page'', PStr ''all'')]
          @ (case threatened of None \<Rightarrow> [] | Some t \<Rightarrow> [(''threatened'', PBool t)])
          @ (case introduced of None \<Rightarrow> [] | Some i \<Rightarrow> [(''introduced'', PBool i)])"
  have p: "fetch_params lat lng area_km2 threatened introduced = Inr ?params"
    by (rule fetch_params_Inr [OF assms])
  have 1: "''threatened'' \<in> fst ` set ?params \<longleftrightarrow> threatened \<noteq> None"
    by (cases threatened; cases introduced) simp_all
  have 2: "''introduced'' \<in> fst ` set ?params \<longleftrightarrow> introduced \<noteq> None"
    by (cases threatened; cases introduced) simp_all
  have 3: "\<forall>b. threatened = Some b \<longrightarrow> map_of ?params ''threatened'' = Some (PBool b)"
    by (cases threatened; cases introduced) simp_all
  have 4: "\<forall>b. introduced = Some b \<longrightarrow> map_of ?params ''introduced'' = Some (PBool b)"
    by (cases threatened; cases introduced) simp_all
  from p 1 2 3 4 fetch_species_call [OF p] show ?thesis by blast
qed

theorem optional_filter_present_iff_given_witness:
  "area_to_radius_km float_zero = Inr float_zero
   \<and> (\<exists>params. fetch_params LAT LNG float_zero (Some False) None = Inr params
      \<and> ''threatened'' \<in> fst ` set params
      \<and> ''introduced'' \<notin> fst ` set params
      \<and> map_of params ''threatened'' = Some (PBool False))"
  using optional_filter_present_iff_given [OF area_zero, of LAT LNG "Some False" None
      "\<lambda>params. Inr PNone"] area_zero
  by auto

text \<open>
  C10. The printing loop of the entry point prints the scientific name of every
  record whose \<^verbatim>\<open>common_name\<close> is false as a condition; the empty string and
  \<^verbatim>\<open>None\<close> both are.
\<close>

theorem display_falls_back_on_falsy:
  assumes "map_of record ''common_name'' = Some common_name"
    and "\<not> truthy common_name"
    and "map_of record ''scientific_name'' = Some scientific_name"
  shows "display_name (PDict record) = Inr scientific_name
      \<and> print_names (PDict record # rest) printed = print_names rest (printed @ [scientific_name])
      \<and> \<not> truthy (PStr '''') \<and> \<not> truthy PNone"
  using assms by (simp add: display_name_def)

theorem display_falls_back_on_falsy_witness:
  "display_name (PDict [(''scientific_name'', PStr ''Vulpes vulpes''),
                        (''common_name'', PStr '''')]) = Inr (PStr ''Vulpes vulpes'')
   \<and> print_names [PDict [(''scientific_name'', PStr ''Vulpes vulpes''),
                          (''common_name'', PStr '''')]] [] = ([PStr ''Vulpes vulpes''], None)"
  using display_falls_back_on_falsy [of "[(''scientific_name'', PStr ''Vulpes vulpes''),
      (''common_name'', PStr '''')]" "PStr ''''" "PStr ''Vulpes vulpes''" "[]" "[]"]
  by simp

end
